theory Spec2Isabelle
  imports Complex_Main
begin

section \<open>Tensor values\<close>

text \<open>
  The class \<open>TFHMM\<close> of \<open>HMM.ipynb\<close> computes on \<open>tf.float32\<close> tensors. A tensor entry is
  modelled as a real number extended with the three special values of IEEE 754 arithmetic:
  division by zero, the logarithm of a non-positive number and the indeterminate forms yield
  \<open>PInf\<close>, \<open>NInf\<close> or \<open>NaN\<close> as IEEE 754 prescribes, instead of raising. The finite values
  are exact reals: the rounding, the overflow and the underflow of float32 and the sign of
  zero are not modelled, and a finite entry of the model stands for the float32 entry up to
  these only. The facts proved of the program are for this reason stated on its operations
  (what is divided by what, which entries are \<open>NaN\<close>, which entry an index points at), not
  on the real value of a finite result.
\<close>

datatype fl = Fin real | PInf | NInf | NaN

instantiation fl :: "{zero, plus, uminus, minus, times, inverse}"
begin

definition zero_fl :: fl where "zero_fl = Fin 0"

fun plus_fl :: "fl \<Rightarrow> fl \<Rightarrow> fl" where
  "plus_fl (Fin a) (Fin b) = Fin (a + b)"
| "plus_fl NaN y = NaN"
| "plus_fl x NaN = NaN"
| "plus_fl PInf NInf = NaN"
| "plus_fl NInf PInf = NaN"
| "plus_fl PInf y = PInf"
| "plus_fl x PInf = PInf"
| "plus_fl NInf y = NInf"
| "plus_fl x NInf = NInf"

fun uminus_fl :: "fl \<Rightarrow> fl" where
  "uminus_fl (Fin a) = Fin (- a)"
| "uminus_fl PInf = NInf"
| "uminus_fl NInf = PInf"
| "uminus_fl NaN = NaN"

definition minus_fl :: "fl \<Rightarrow> fl \<Rightarrow> fl" where
  "minus_fl x y = x + (- y)"

fun times_fl :: "fl \<Rightarrow> fl \<Rightarrow> fl" where
  "times_fl (Fin a) (Fin b) = Fin (a * b)"
| "times_fl NaN y = NaN"
| "times_fl x NaN = NaN"
| "times_fl (Fin a) PInf = (if a = 0 then NaN else if 0 < a then PInf else NInf)"
| "times_fl (Fin a) NInf = (if a = 0 then NaN else if 0 < a then NInf else PInf)"
| "times_fl PInf (Fin b) = (if b = 0 then NaN else if 0 < b then PInf else NInf)"
| "times_fl NInf (Fin b) = (if b = 0 then NaN else if 0 < b then NInf else PInf)"
| "times_fl PInf PInf = PInf"
| "times_fl PInf NInf = NInf"
| "times_fl NInf PInf = NInf"
| "times_fl NInf NInf = PInf"

fun divide_fl :: "fl \<Rightarrow> fl \<Rightarrow> fl" where
  "divide_fl (Fin a) (Fin b) =
     (if b \<noteq> 0 then Fin (a / b)
      else if a = 0 then NaN else if 0 < a then PInf else NInf)"
| "divide_fl NaN y = NaN"
| "divide_fl x NaN = NaN"
| "divide_fl (Fin a) PInf = Fin 0"
| "divide_fl (Fin a) NInf = Fin 0"
| "divide_fl PInf (Fin b) = (if 0 \<le> b then PInf else NInf)"
| "divide_fl NInf (Fin b) = (if 0 \<le> b then NInf else PInf)"
| "divide_fl PInf y = NaN"
| "divide_fl NInf y = NaN"

definition inverse_fl :: "fl \<Rightarrow> fl" where
  "inverse_fl x = divide (Fin 1) x"

instance ..

end

text \<open>\<open>tf.exp\<close> and \<open>tf.math.log\<close> on one entry.\<close>

fun fl_exp :: "fl \<Rightarrow> fl" where
  "fl_exp (Fin a) = Fin (exp a)"
| "fl_exp PInf = PInf"
| "fl_exp NInf = Fin 0"
| "fl_exp NaN = NaN"

fun fl_log :: "fl \<Rightarrow> fl" where
  "fl_log (Fin a) = (if 0 < a then Fin (ln a) else if a = 0 then NInf else NaN)"
| "fl_log PInf = PInf"
| "fl_log NInf = NaN"
| "fl_log NaN = NaN"

text \<open>\<open>x ** 2\<close> on one entry.\<close>

definition fl_sq :: "fl \<Rightarrow> fl" where
  "fl_sq x = x * x"

text \<open>The IEEE comparison \<open>x > y\<close>: false as soon as one side is \<open>NaN\<close>.\<close>

fun fl_gt :: "fl \<Rightarrow> fl \<Rightarrow> bool" where
  "fl_gt (Fin a) (Fin b) = (b < a)"
| "fl_gt NaN y = False"
| "fl_gt x NaN = False"
| "fl_gt PInf PInf = False"
| "fl_gt PInf y = True"
| "fl_gt x PInf = False"
| "fl_gt NInf y = False"
| "fl_gt x NInf = True"

text \<open>
  Without rounding the sum of the extended values is associative and commutative, so the
  order in which a reduction adds its terms does not matter.
\<close>

instance fl :: comm_monoid_add
proof (standard, goal_cases)
  case (1 x y z)
  show ?case
    by (cases x; cases y; cases z; simp)
next
  case (2 x y)
  show ?case
    by (cases x; cases y; simp)
next
  case (3 x)
  show ?case
    by (cases x; simp add: zero_fl_def)
qed

text \<open>
  Tensors of rank 1, 2 and 3: the shape and the entry at each index. Only the entries at
  indices inside the shape are meaningful.
\<close>

record vec =
  vlen :: nat
  vat :: "nat \<Rightarrow> fl"

record mat =
  nrows :: nat
  ncols :: nat
  ent :: "nat \<Rightarrow> nat \<Rightarrow> fl"

record ten3 =
  dim0 :: nat
  dim1 :: nat
  dim2 :: nat
  ent3 :: "nat \<Rightarrow> nat \<Rightarrow> nat \<Rightarrow> fl"

text \<open>What the calls of \<open>fit\<close> and \<open>predict\<close> can raise.\<close>

datatype error =
    IncompatibleShapes
  | NegativeDimension
  | EmptyReductionAxis
  | UnsetParameter

definition bind_err :: "error + 'a \<Rightarrow> ('a \<Rightarrow> error + 'b) \<Rightarrow> error + 'b" where
  "bind_err r f = (case r of Inl e \<Rightarrow> Inl e | Inr v \<Rightarrow> f v)"

subsection \<open>Broadcasting\<close>

text \<open>
  Two axes are compatible when their sizes are equal or one of them is 1; the axis of size 1
  is then read at index 0 for every index of the result.
\<close>

definition bdim :: "nat \<Rightarrow> nat \<Rightarrow> error + nat" where
  "bdim a b =
     (if a = b then Inr a else if a = 1 then Inr b else if b = 1 then Inr a
      else Inl IncompatibleShapes)"

definition bidx :: "nat \<Rightarrow> nat \<Rightarrow> nat" where
  "bidx a i = (if a = 1 then 0 else i)"

definition bop2 :: "(fl \<Rightarrow> fl \<Rightarrow> fl) \<Rightarrow> mat \<Rightarrow> mat \<Rightarrow> error + mat" where
  "bop2 f A B =
     bind_err (bdim (nrows A) (nrows B)) (\<lambda>r.
     bind_err (bdim (ncols A) (ncols B)) (\<lambda>c.
     Inr \<lparr>nrows = r, ncols = c,
          ent = (\<lambda>i j. f (ent A (bidx (nrows A) i) (bidx (ncols A) j))
                          (ent B (bidx (nrows B) i) (bidx (ncols B) j)))\<rparr>))"

definition bop3 :: "(fl \<Rightarrow> fl \<Rightarrow> fl) \<Rightarrow> ten3 \<Rightarrow> ten3 \<Rightarrow> error + ten3" where
  "bop3 f A B =
     bind_err (bdim (dim0 A) (dim0 B)) (\<lambda>a.
     bind_err (bdim (dim1 A) (dim1 B)) (\<lambda>b.
     bind_err (bdim (dim2 A) (dim2 B)) (\<lambda>c.
     Inr \<lparr>dim0 = a, dim1 = b, dim2 = c,
          ent3 = (\<lambda>i j l.
            f (ent3 A (bidx (dim0 A) i) (bidx (dim1 A) j) (bidx (dim2 A) l))
              (ent3 B (bidx (dim0 B) i) (bidx (dim1 B) j) (bidx (dim2 B) l)))\<rparr>)))"

subsection \<open>Reshaping, elementwise maps and reductions\<close>

text \<open>\<open>T[tf.newaxis, :, :]\<close>, \<open>T[:, tf.newaxis, :]\<close> and \<open>T[:, :, tf.newaxis]\<close> of a matrix.\<close>

definition newaxis0 :: "mat \<Rightarrow> ten3" where
  "newaxis0 A = \<lparr>dim0 = 1, dim1 = nrows A, dim2 = ncols A, ent3 = (\<lambda>_ i j. ent A i j)\<rparr>"

definition newaxis1 :: "mat \<Rightarrow> ten3" where
  "newaxis1 A = \<lparr>dim0 = nrows A, dim1 = 1, dim2 = ncols A, ent3 = (\<lambda>c _ j. ent A c j)\<rparr>"

definition newaxis2 :: "mat \<Rightarrow> ten3" where
  "newaxis2 A = \<lparr>dim0 = nrows A, dim1 = ncols A, dim2 = 1, ent3 = (\<lambda>c i _. ent A c i)\<rparr>"

text \<open>\<open>v[:, tf.newaxis]\<close> and \<open>v[tf.newaxis, :]\<close> of a vector.\<close>

definition col_of :: "vec \<Rightarrow> mat" where
  "col_of v = \<lparr>nrows = vlen v, ncols = 1, ent = (\<lambda>c _. vat v c)\<rparr>"

definition row_of :: "vec \<Rightarrow> mat" where
  "row_of v = \<lparr>nrows = 1, ncols = vlen v, ent = (\<lambda>_ i. vat v i)\<rparr>"

definition map_mat :: "(fl \<Rightarrow> fl) \<Rightarrow> mat \<Rightarrow> mat" where
  "map_mat f A = \<lparr>nrows = nrows A, ncols = ncols A, ent = (\<lambda>i j. f (ent A i j))\<rparr>"

definition map_ten3 :: "(fl \<Rightarrow> fl) \<Rightarrow> ten3 \<Rightarrow> ten3" where
  "map_ten3 f T =
     \<lparr>dim0 = dim0 T, dim1 = dim1 T, dim2 = dim2 T, ent3 = (\<lambda>i j l. f (ent3 T i j l))\<rparr>"

text \<open>\<open>tf.reduce_sum(T, axis=2)\<close> and \<open>tf.reduce_sum(T, axis=1)\<close> of a rank-3 tensor.\<close>

definition reduce_sum3_axis2 :: "ten3 \<Rightarrow> mat" where
  "reduce_sum3_axis2 T =
     \<lparr>nrows = dim0 T, ncols = dim1 T, ent = (\<lambda>i j. \<Sum>l<dim2 T. ent3 T i j l)\<rparr>"

definition reduce_sum3_axis1 :: "ten3 \<Rightarrow> mat" where
  "reduce_sum3_axis1 T =
     \<lparr>nrows = dim0 T, ncols = dim2 T, ent = (\<lambda>i l. \<Sum>j<dim1 T. ent3 T i j l)\<rparr>"

text \<open>
  \<open>tf.reduce_sum(A, axis=1)\<close> and \<open>tf.reduce_logsumexp(A, axis=0)\<close> of a matrix.
  TensorFlow computes the latter as \<open>m + log(sum(exp(x - m)))\<close> with \<open>m\<close> the largest entry
  (0 when that is not finite); without rounding this is \<open>log(sum(exp(x)))\<close>, also on the
  special values and on an empty axis.
\<close>

definition reduce_sum_axis1 :: "mat \<Rightarrow> vec" where
  "reduce_sum_axis1 A = \<lparr>vlen = nrows A, vat = (\<lambda>c. \<Sum>i<ncols A. ent A c i)\<rparr>"

definition reduce_logsumexp_axis0 :: "mat \<Rightarrow> vec" where
  "reduce_logsumexp_axis0 A =
     \<lparr>vlen = ncols A, vat = (\<lambda>i. fl_log (\<Sum>c<nrows A. fl_exp (ent A c i)))\<rparr>"

text \<open>\<open>tf.matmul(A, B)\<close>.\<close>

definition matmul :: "mat \<Rightarrow> mat \<Rightarrow> error + mat" where
  "matmul A B =
     (if ncols A = nrows B
      then Inr \<lparr>nrows = nrows A, ncols = ncols B,
                ent = (\<lambda>i j. \<Sum>l<ncols A. ent A i l * ent B l j)\<rparr>
      else Inl IncompatibleShapes)"

text \<open>
  \<open>tf.argmax(A, axis=0)\<close>. For each column the reduction kernel starts from index 0 and the
  lowest float32 value, goes through the rows in order and moves to an entry that compares
  greater than the value it holds. It so returns the smallest index of the largest entry; an
  entry \<open>NaN\<close> compares greater than nothing and is never taken, and a column without an entry
  above the lowest float32 value gives 0. An empty reduction axis is refused.
\<close>

definition float32_lowest :: real where
  "float32_lowest = - ((2 - 1 / 2 ^ 23) * 2 ^ 127)"

fun argmax_scan :: "(nat \<Rightarrow> fl) \<Rightarrow> nat \<Rightarrow> nat \<times> fl" where
  "argmax_scan f 0 = (0, Fin float32_lowest)"
| "argmax_scan f (Suc k) =
     (case argmax_scan f k of (b, v) \<Rightarrow> if fl_gt (f k) v then (k, f k) else (b, v))"

definition argmax :: "(nat \<Rightarrow> fl) \<Rightarrow> nat \<Rightarrow> nat" where
  "argmax f k = fst (argmax_scan f k)"

definition argmax_axis0 :: "mat \<Rightarrow> error + nat list" where
  "argmax_axis0 A =
     (if nrows A = 0 then Inl EmptyReductionAxis
      else Inr (map (\<lambda>i. argmax (\<lambda>c. ent A c i) (nrows A)) [0..<ncols A]))"

section \<open>The model object\<close>

text \<open>
  The attributes \<open>means_\<close>, \<open>covars_\<close>, \<open>transmat_\<close> and \<open>startprob_\<close> are written without
  the trailing underscore. They are \<open>None\<close> until \<open>fit\<close> has run.
\<close>

record TFHMM =
  n_components :: int
  n_iter :: int
  means :: "mat option"
  covars :: "mat option"
  transmat :: "mat option"
  startprob :: "vec option"

definition TFHMM_init :: "int \<Rightarrow> int \<Rightarrow> TFHMM" where
  "TFHMM_init k it =
     \<lparr>n_components = k, n_iter = it, means = None, covars = None,
      transmat = None, startprob = None\<rparr>"

text \<open>Reading a parameter that is still \<open>None\<close> raises.\<close>

definition param :: "'a option \<Rightarrow> error + 'a" where
  "param p = (case p of None \<Rightarrow> Inl UnsetParameter | Some v \<Rightarrow> Inr v)"

subsection \<open>\<open>_compute_log_likelihood\<close>\<close>

definition compute_log_likelihood :: "TFHMM \<Rightarrow> mat \<Rightarrow> error + mat" where
  "compute_log_likelihood self X =
     (let X_expanded = newaxis0 X in
      bind_err (param (means self)) (\<lambda>mu.
      let means_expanded = newaxis1 mu in
      bind_err (param (covars self)) (\<lambda>cv.
      let covars_expanded = newaxis1 cv in
      bind_err (bop3 (-) X_expanded means_expanded) (\<lambda>diff.
      bind_err (bop3 (/) (map_ten3 fl_sq diff) covars_expanded) (\<lambda>q.
      let log_likelihood = map_mat (\<lambda>x. Fin (- 0.5) * x) (reduce_sum3_axis2 q) in
      bop2 (-) log_likelihood
        (map_mat (\<lambda>x. Fin 0.5 * x)
           (reduce_sum3_axis2
              (map_ten3 (\<lambda>v. fl_log (Fin (2 * pi) * v)) covars_expanded))))))))"

subsection \<open>\<open>predict\<close>\<close>

definition predict :: "TFHMM \<Rightarrow> mat \<Rightarrow> error + nat list" where
  "predict self X =
     bind_err (compute_log_likelihood self X) (\<lambda>log_likelihood.
     argmax_axis0 log_likelihood)"

subsection \<open>\<open>fit\<close>\<close>

text \<open>
  \<open>fit\<close> draws three random tensors. Their entries are fixed by the state of TensorFlow's
  random generator at the call (its seed); the source sets none, so the draws are an input
  of the model: the entry at each index of \<open>tf.random.normal([k, d])\<close>,
  \<open>tf.random.uniform([k, k])\<close> and \<open>tf.random.uniform([k])\<close>.
\<close>

record rng =
  normal :: "nat \<Rightarrow> nat \<Rightarrow> real"
  uniform2 :: "nat \<Rightarrow> nat \<Rightarrow> real"
  uniform1 :: "nat \<Rightarrow> real"

definition random_normal :: "rng \<Rightarrow> nat \<Rightarrow> nat \<Rightarrow> mat" where
  "random_normal g k d = \<lparr>nrows = k, ncols = d, ent = (\<lambda>c j. Fin (normal g c j))\<rparr>"

definition random_uniform2 :: "rng \<Rightarrow> nat \<Rightarrow> nat \<Rightarrow> mat" where
  "random_uniform2 g k d = \<lparr>nrows = k, ncols = d, ent = (\<lambda>c j. Fin (uniform2 g c j))\<rparr>"

definition random_uniform1 :: "rng \<Rightarrow> nat \<Rightarrow> vec" where
  "random_uniform1 g k = \<lparr>vlen = k, vat = (\<lambda>c. Fin (uniform1 g c))\<rparr>"

definition ones :: "nat \<Rightarrow> nat \<Rightarrow> mat" where
  "ones k d = \<lparr>nrows = k, ncols = d, ent = (\<lambda>c j. Fin 1)\<rparr>"

text \<open>
  \<open>tf.nn.softmax\<close> along the last axis: \<open>exp(x) / sum(exp(x))\<close> (the shift by the largest
  entry that TensorFlow applies cancels without rounding).
\<close>

definition softmax_axis1 :: "mat \<Rightarrow> mat" where
  "softmax_axis1 A =
     \<lparr>nrows = nrows A, ncols = ncols A,
      ent = (\<lambda>i j. fl_exp (ent A i j) / (\<Sum>l<ncols A. fl_exp (ent A i l)))\<rparr>"

definition softmax_vec :: "vec \<Rightarrow> vec" where
  "softmax_vec v =
     \<lparr>vlen = vlen v, vat = (\<lambda>c. fl_exp (vat v c) / (\<Sum>l<vlen v. fl_exp (vat v l)))\<rparr>"

text \<open>\<open>Variable.assign\<close> keeps the shape of the variable.\<close>

definition assign_mat :: "mat \<Rightarrow> mat \<Rightarrow> error + mat" where
  "assign_mat var v =
     (if nrows v = nrows var \<and> ncols v = ncols var then Inr v else Inl IncompatibleShapes)"

definition assign_vec :: "vec \<Rightarrow> vec \<Rightarrow> error + vec" where
  "assign_vec var v = (if vlen v = vlen var then Inr v else Inl IncompatibleShapes)"

text \<open>
  The lines of \<open>fit\<close> before the loop: the four parameters are created and the transition
  matrix and the start probabilities are normalised. A negative \<open>n_components\<close> is refused
  by the first tensor constructor.
\<close>

definition initialize :: "TFHMM \<Rightarrow> rng \<Rightarrow> nat \<Rightarrow> error + TFHMM" where
  "initialize self g n_features =
     (if n_components self < 0 then Inl NegativeDimension
      else
        (let k = nat (n_components self);
             T = random_uniform2 g k k;
             s = random_uniform1 g k
         in bind_err (assign_mat T (softmax_axis1 T)) (\<lambda>T'.
            bind_err (assign_vec s (softmax_vec s)) (\<lambda>s'.
            Inr (self\<lparr>means := Some (random_normal g k n_features),
                      covars := Some (ones k n_features),
                      transmat := Some T',
                      startprob := Some s'\<rparr>)))))"

text \<open>The E-step of one iteration: the responsibility matrix \<open>resp\<close>.\<close>

definition e_step :: "TFHMM \<Rightarrow> mat \<Rightarrow> error + mat" where
  "e_step self X_tf =
     bind_err (compute_log_likelihood self X_tf) (\<lambda>ll.
     bind_err (param (startprob self)) (\<lambda>sp.
     bind_err (bop2 (+) ll (map_mat fl_log (col_of sp))) (\<lambda>log_resp.
     bind_err (bop2 (-) log_resp (row_of (reduce_logsumexp_axis0 log_resp))) (\<lambda>log_resp'.
     Inr (map_mat fl_exp log_resp')))))"

text \<open>The M-step of one iteration: the means are assigned first, the variances after.\<close>

definition m_step :: "TFHMM \<Rightarrow> mat \<Rightarrow> mat \<Rightarrow> error + TFHMM" where
  "m_step self X_tf resp =
     bind_err (matmul resp X_tf) (\<lambda>numer.
     let denom = col_of (reduce_sum_axis1 resp) in
     bind_err (bop2 (/) numer denom) (\<lambda>new_means.
     bind_err (param (means self)) (\<lambda>means_var.
     bind_err (assign_mat means_var new_means) (\<lambda>mu.
     let self1 = self\<lparr>means := Some mu\<rparr> in
     bind_err (param (means self1)) (\<lambda>mu1.
     bind_err (bop3 (-) (newaxis0 X_tf) (newaxis1 mu1)) (\<lambda>centered.
     let squared = map_ten3 fl_sq centered in
     bind_err (bop3 (*) (newaxis2 resp) squared) (\<lambda>weighted.
     bind_err (bop2 (/) (reduce_sum3_axis1 weighted) denom) (\<lambda>new_covars.
     bind_err (param (covars self1)) (\<lambda>covars_var.
     bind_err (assign_mat covars_var new_covars) (\<lambda>cv.
     Inr (self1\<lparr>covars := Some cv\<rparr>)))))))))))"

definition em_iteration :: "TFHMM \<Rightarrow> mat \<Rightarrow> error + TFHMM" where
  "em_iteration self X_tf = bind_err (e_step self X_tf) (\<lambda>resp. m_step self X_tf resp)"

text \<open>\<open>for i in range(self.n_iter)\<close>: the body runs \<open>t\<close> times.\<close>

fun em_loop :: "nat \<Rightarrow> TFHMM \<Rightarrow> mat \<Rightarrow> error + TFHMM" where
  "em_loop 0 self X_tf = Inr self"
| "em_loop (Suc t) self X_tf =
     bind_err (em_iteration self X_tf) (\<lambda>self'. em_loop t self' X_tf)"

definition fit :: "TFHMM \<Rightarrow> rng \<Rightarrow> mat \<Rightarrow> error + TFHMM" where
  "fit self g X_tf =
     bind_err (initialize self g (ncols X_tf)) (\<lambda>self0.
     em_loop (nat (n_iter self)) self0 X_tf)"

section \<open>Vocabulary of the properties\<close>

text \<open>An entry is finite when it is none of the special values; \<open>real_of\<close> reads it.\<close>

fun finite_fl :: "fl \<Rightarrow> bool" where
  "finite_fl (Fin a) = True"
| "finite_fl x = False"

fun real_of :: "fl \<Rightarrow> real" where
  "real_of (Fin a) = a"
| "real_of x = 0"

text \<open>
  The diagonal-covariance Gaussian log-density of sample \<open>i\<close> of \<open>X\<close> under component \<open>c\<close>
  with means \<open>M\<close> and variances \<open>V\<close>, and the same with the logarithm of the start weight of
  the component added.
\<close>

definition gauss_ll :: "mat \<Rightarrow> mat \<Rightarrow> mat \<Rightarrow> nat \<Rightarrow> nat \<Rightarrow> fl" where
  "gauss_ll M V X c i =
     Fin (- 0.5) * (\<Sum>j<ncols M. fl_sq (ent X i j - ent M c j) / ent V c j)
     - Fin 0.5 * (\<Sum>j<ncols M. fl_log (Fin (2 * pi) * ent V c j))"

definition log_joint :: "mat \<Rightarrow> mat \<Rightarrow> vec \<Rightarrow> mat \<Rightarrow> nat \<Rightarrow> nat \<Rightarrow> fl" where
  "log_joint M V s X c i = gauss_ll M V X c i + fl_log (vat s c)"

text \<open>
  A state is fitted for \<open>k\<close> components and \<open>d\<close> features when its means and variances are
  set with shape \<open>[k, d]\<close>; it is shaped when moreover its start probabilities are set with
  shape \<open>[k]\<close>, as after the initialisation of \<open>fit\<close>.
\<close>

definition fitted :: "TFHMM \<Rightarrow> nat \<Rightarrow> nat \<Rightarrow> bool" where
  "fitted self k d =
     (case (means self, covars self) of
        (Some M, Some V) \<Rightarrow> nrows M = k \<and> ncols M = d \<and> nrows V = k \<and> ncols V = d
      | _ \<Rightarrow> False)"

definition shaped :: "TFHMM \<Rightarrow> nat \<Rightarrow> nat \<Rightarrow> bool" where
  "shaped self k d =
     (case (means self, covars self, startprob self) of
        (Some M, Some V, Some s) \<Rightarrow>
          nrows M = k \<and> ncols M = d \<and> nrows V = k \<and> ncols V = d \<and> vlen s = k
      | _ \<Rightarrow> False)"


subsection \<open>Concrete inputs\<close>

text \<open>\<open>tf.convert_to_tensor\<close> of a list of numbers and of a list of rows of width \<open>d\<close>.\<close>

definition vec_of :: "real list \<Rightarrow> vec" where
  "vec_of xs = \<lparr>vlen = length xs, vat = (\<lambda>c. Fin (xs ! c))\<rparr>"

definition mat_of :: "nat \<Rightarrow> real list list \<Rightarrow> mat" where
  "mat_of d rows = \<lparr>nrows = length rows, ncols = d, ent = (\<lambda>i j. Fin (rows ! i ! j))\<rparr>"

text \<open>A state with two components on one feature, and a generator whose draws are all 0.\<close>

definition two_state_model :: TFHMM where
  "two_state_model =
     (TFHMM_init 2 1)\<lparr>means := Some (mat_of 1 [[0], [1]]),
                       covars := Some (mat_of 1 [[1], [1]]),
                       startprob := Some (vec_of [1/4, 3/4])\<rparr>"

definition zero_rng :: rng where
  "zero_rng = \<lparr>normal = (\<lambda>_ _. 0), uniform2 = (\<lambda>_ _. 0), uniform1 = (\<lambda>_. 0)\<rparr>"

text \<open>A state with a single component.\<close>

definition one_state_model :: TFHMM where
  "one_state_model =
     (TFHMM_init 1 1)\<lparr>means := Some (mat_of 1 [[0]]),
                       covars := Some (mat_of 1 [[1]]),
                       startprob := Some (vec_of [1])\<rparr>"

subsection \<open>Observing a result\<close>

text \<open>
  An entry of a returned matrix, and a mean or a variance of a returned state; the error when
  the call failed.
\<close>

definition entry_of :: "error + mat \<Rightarrow> nat \<Rightarrow> nat \<Rightarrow> error + fl" where
  "entry_of r c i = bind_err r (\<lambda>A. Inr (ent A c i))"

definition mean_of :: "error + TFHMM \<Rightarrow> nat \<Rightarrow> nat \<Rightarrow> error + fl" where
  "mean_of r c j = bind_err r (\<lambda>self. bind_err (param (means self)) (\<lambda>M. Inr (ent M c j)))"

definition var_of :: "error + TFHMM \<Rightarrow> nat \<Rightarrow> nat \<Rightarrow> error + fl" where
  "var_of r c j = bind_err r (\<lambda>self. bind_err (param (covars self)) (\<lambda>V. Inr (ent V c j)))"


text \<open>A state with a variance 0, and a state with two features.\<close>

definition zero_variance_model :: TFHMM where
  "zero_variance_model =
     (TFHMM_init 1 1)\<lparr>means := Some (mat_of 1 [[0]]), covars := Some (mat_of 1 [[0]])\<rparr>"

definition wide_model :: TFHMM where
  "wide_model =
     (TFHMM_init 1 1)\<lparr>means := Some (mat_of 2 [[0, 0]]), covars := Some (mat_of 2 [[1, 1]])\<rparr>"

section \<open>Auxiliary facts\<close>

subsection \<open>Shapes and entries\<close>

lemma bind_err_Inr [simp]: "bind_err (Inr v) f = f v"
  by (simp add: bind_err_def)

lemma bind_err_Inl [simp]: "bind_err (Inl e) f = Inl e"
  by (simp add: bind_err_def)

lemma bdim_same [simp]: "bdim a a = Inr a"
  by (simp add: bdim_def)

lemma bdim_one_left [simp]: "bdim (Suc 0) b = Inr b"
  by (simp add: bdim_def)

lemma bdim_one_right [simp]: "bdim a (Suc 0) = Inr a"
  by (simp add: bdim_def)

lemma bidx_less [simp]: "i < a \<Longrightarrow> bidx a i = i"
  by (simp add: bidx_def)

lemma bidx_one [simp]: "bidx (Suc 0) i = 0"
  by (simp add: bidx_def)

lemma finite_fl_iff: "finite_fl x \<longleftrightarrow> x = Fin (real_of x)"
  by (cases x) simp_all

lemma Fin_minus [simp]: "Fin a - Fin b = Fin (a - b)"
  by (simp add: minus_fl_def)

lemma sum_Fin: "(\<Sum>j\<in>S. Fin (f j)) = Fin (\<Sum>j\<in>S. f j)"
  by (induction S rule: infinite_finite_induct) (simp_all add: zero_fl_def)

lemma cll_entries:
  assumes "means self = Some M" "covars self = Some V"
    and "nrows V = nrows M" "ncols V = ncols M" "ncols X = ncols M"
  shows "\<exists>L. compute_log_likelihood self X = Inr L \<and> nrows L = nrows M \<and> ncols L = nrows X
     \<and> (\<forall>c<nrows M. \<forall>i<nrows X. ent L c i = gauss_ll M V X c i)"
  using assms
  by (simp add: compute_log_likelihood_def param_def bop3_def bop2_def newaxis0_def newaxis1_def
      map_ten3_def map_mat_def reduce_sum3_axis2_def gauss_ll_def)

lemma e_step_entries:
  assumes "means self = Some M" "covars self = Some V" "startprob self = Some s"
    and "nrows V = nrows M" "ncols V = ncols M" "ncols X = ncols M" "vlen s = nrows M"
  shows "\<exists>R. e_step self X = Inr R \<and> nrows R = nrows M \<and> ncols R = nrows X
     \<and> (\<forall>c<nrows M. \<forall>i<nrows X. ent R c i =
           fl_exp (log_joint M V s X c i - fl_log (\<Sum>c'<nrows M. fl_exp (log_joint M V s X c' i))))"
proof -
  obtain L where L: "compute_log_likelihood self X = Inr L" "nrows L = nrows M"
    "ncols L = nrows X" "\<forall>c<nrows M. \<forall>i<nrows X. ent L c i = gauss_ll M V X c i"
    using cll_entries [OF assms(1,2,4,5,6)] by blast
  show ?thesis
    using L assms(3,7)
    by (simp add: e_step_def param_def bop2_def map_mat_def col_of_def row_of_def
        reduce_logsumexp_axis0_def log_joint_def cong: sum.cong_simp)
qed

lemma m_step_entries:
  assumes "means self = Some M" "covars self = Some V"
    and "nrows V = nrows M" "ncols V = ncols M" "ncols X = ncols M"
    and "nrows R = nrows M" "ncols R = nrows X"
  shows "\<exists>self' M' V'. m_step self X R = Inr self'
     \<and> means self' = Some M' \<and> covars self' = Some V'
     \<and> startprob self' = startprob self \<and> transmat self' = transmat self
     \<and> n_components self' = n_components self \<and> n_iter self' = n_iter self
     \<and> nrows M' = nrows M \<and> ncols M' = ncols M \<and> nrows V' = nrows M \<and> ncols V' = ncols M
     \<and> (\<forall>c<nrows M. \<forall>j<ncols M.
           ent M' c j = (\<Sum>i<nrows X. ent R c i * ent X i j) / (\<Sum>i<nrows X. ent R c i)
         \<and> ent V' c j = (\<Sum>i<nrows X. ent R c i * fl_sq (ent X i j - ent M' c j))
                          / (\<Sum>i<nrows X. ent R c i))"
  using assms
  by (simp add: m_step_def param_def matmul_def bop2_def bop3_def assign_mat_def col_of_def
      reduce_sum_axis1_def reduce_sum3_axis1_def newaxis0_def newaxis1_def newaxis2_def
      map_ten3_def Let_def cong: sum.cong_simp)

lemma shaped_iff:
  "shaped self k d \<longleftrightarrow>
     (\<exists>M V s. means self = Some M \<and> covars self = Some V \<and> startprob self = Some s
        \<and> nrows M = k \<and> ncols M = d \<and> nrows V = k \<and> ncols V = d \<and> vlen s = k)"
  by (auto simp: shaped_def split: option.splits)

lemma fitted_iff:
  "fitted self k d \<longleftrightarrow>
     (\<exists>M V. means self = Some M \<and> covars self = Some V
        \<and> nrows M = k \<and> ncols M = d \<and> nrows V = k \<and> ncols V = d)"
  by (auto simp: fitted_def split: option.splits)

lemma initialize_eq:
  assumes "0 \<le> n_components self"
  shows "initialize self g d =
     Inr (self\<lparr>means := Some (random_normal g (nat (n_components self)) d),
               covars := Some (ones (nat (n_components self)) d),
               transmat := Some (softmax_axis1
                  (random_uniform2 g (nat (n_components self)) (nat (n_components self)))),
               startprob := Some (softmax_vec (random_uniform1 g (nat (n_components self))))\<rparr>)"
  using assms
  by (simp add: initialize_def Let_def assign_mat_def assign_vec_def softmax_axis1_def
      softmax_vec_def)

lemma initialize_neg: "n_components self < 0 \<Longrightarrow> initialize self g d = Inl NegativeDimension"
  by (simp add: initialize_def)

lemma initialize_shaped:
  assumes "initialize self g d = Inr self0"
  shows "shaped self0 (nat (n_components self)) d"
proof -
  have "0 \<le> n_components self"
    using assms by (cases "n_components self < 0") (simp_all add: initialize_neg)
  from initialize_eq [OF this, of g d] assms show ?thesis
    by (auto simp: shaped_def random_normal_def ones_def softmax_vec_def random_uniform1_def)
qed

lemma em_iteration_ok:
  assumes "shaped self k d" "ncols X = d"
  shows "\<exists>self'. em_iteration self X = Inr self' \<and> shaped self' k d
     \<and> startprob self' = startprob self \<and> transmat self' = transmat self
     \<and> n_components self' = n_components self \<and> n_iter self' = n_iter self"
proof -
  from assms(1) obtain M V s where h: "means self = Some M" "covars self = Some V"
    "startprob self = Some s" "nrows M = k" "ncols M = d" "nrows V = k" "ncols V = d"
    "vlen s = k"
    by (auto simp: shaped_iff)
  obtain R where R: "e_step self X = Inr R" "nrows R = nrows M" "ncols R = nrows X"
    using e_step_entries [of self M V s X] h assms(2) by auto
  obtain self' M' V' where m: "m_step self X R = Inr self'"
    "means self' = Some M'" "covars self' = Some V'"
    "startprob self' = startprob self" "transmat self' = transmat self"
    "n_components self' = n_components self" "n_iter self' = n_iter self"
    "nrows M' = nrows M" "ncols M' = ncols M" "nrows V' = nrows M" "ncols V' = ncols M"
    using m_step_entries [of self M V X R] h assms(2) R by auto
  show ?thesis
    using R(1) m h by (simp add: em_iteration_def shaped_iff)
qed

lemma em_loop_ok:
  assumes "shaped self k d" "ncols X = d"
  shows "\<exists>self'. em_loop t self X = Inr self' \<and> shaped self' k d
     \<and> startprob self' = startprob self \<and> transmat self' = transmat self
     \<and> n_components self' = n_components self \<and> n_iter self' = n_iter self"
  using assms
proof (induction t arbitrary: self)
  case 0
  then show ?case by simp
next
  case (Suc t)
  from em_iteration_ok [OF Suc.prems] obtain s1 where s1: "em_iteration self X = Inr s1"
    "shaped s1 k d" "startprob s1 = startprob self" "transmat s1 = transmat self"
    "n_components s1 = n_components self" "n_iter s1 = n_iter self"
    by blast
  from Suc.IH [OF s1(2) Suc.prems(2)] s1 show ?case
    by auto
qed

lemma fit_ok:
  assumes "0 \<le> n_components self"
  shows "\<exists>self0 self'. initialize self g (ncols X) = Inr self0 \<and> fit self g X = Inr self'
     \<and> shaped self' (nat (n_components self)) (ncols X)
     \<and> startprob self' = startprob self0 \<and> transmat self' = transmat self0"
proof -
  obtain self0 where i: "initialize self g (ncols X) = Inr self0"
    using initialize_eq [OF assms] by blast
  from em_loop_ok [OF initialize_shaped [OF i] refl, of "nat (n_iter self)"] i
  show ?thesis
    by (auto simp: fit_def)
qed

subsection \<open>The scan of \<open>argmax\<close>\<close>

lemma fl_gt_irrefl [simp]: "\<not> fl_gt x x"
  by (cases x) simp_all








lemma argmax_scan_cong:
  "(\<And>c. c < k \<Longrightarrow> f c = g c) \<Longrightarrow> argmax_scan f k = argmax_scan g k"
proof (induction k)
  case 0
  show ?case by simp
next
  case (Suc k)
  then have "argmax_scan f k = argmax_scan g k" "f k = g k"
    by simp_all
  then show ?case by (cases "argmax_scan g k") simp
qed

lemma argmax_cong: "(\<And>c. c < k \<Longrightarrow> f c = g c) \<Longrightarrow> argmax f k = argmax g k"
  using argmax_scan_cong [of k f g] by (simp add: argmax_def)

lemma float32_lowest_below: "float32_lowest < - 1000"
proof -
  have "(1024::real) \<le> 2 ^ 127"
    using power_increasing [of 10 127 "2::real"] by simp
  moreover have "(1::real) \<le> 2 - 1 / 2 ^ 23"
    by simp
  ultimately have "1 * 1024 \<le> (2 - 1 / 2 ^ 23) * (2::real) ^ 127"
    by (intro mult_mono) simp_all
  then show ?thesis
    by (simp add: float32_lowest_def)
qed

lemma ln_two_pi_bounds: "0 < ln (2 * pi)" "ln (2 * pi) < 7"
proof -
  have "1 < 2 * pi" using pi_ge_two by simp
  then show "0 < ln (2 * pi)" by simp
  have "ln (2 * pi) \<le> 2 * pi - 1"
    by (rule ln_le_minus_one) simp
  with pi_less_4 show "ln (2 * pi) < 7" by simp
qed

subsection \<open>\<open>predict\<close> and one iteration of \<open>fit\<close>\<close>

lemma predict_labels:
  assumes "means self = Some M" "covars self = Some V"
    and "nrows V = nrows M" "ncols V = ncols M" "ncols X = ncols M" "0 < nrows M"
  shows "predict self X =
     Inr (map (\<lambda>i. argmax (\<lambda>c. gauss_ll M V X c i) (nrows M)) [0..<nrows X])"
proof -
  obtain L where L: "compute_log_likelihood self X = Inr L" "nrows L = nrows M"
    "ncols L = nrows X" "\<forall>c<nrows M. \<forall>i<nrows X. ent L c i = gauss_ll M V X c i"
    using cll_entries [OF assms(1-5)] by blast
  have "argmax (\<lambda>c. ent L c i) (nrows M) = argmax (\<lambda>c. gauss_ll M V X c i) (nrows M)"
    if "i < nrows X" for i
    using L(4) that by (intro argmax_cong) simp
  then show ?thesis
    using L(1,2,3) assms(6) by (simp add: predict_def argmax_axis0_def)
qed


lemma em_iteration_entries:
  assumes "means self = Some M" "covars self = Some V" "startprob self = Some s"
    and "nrows V = nrows M" "ncols V = ncols M" "ncols X = ncols M" "vlen s = nrows M"
  shows "\<exists>R self' M' V'. e_step self X = Inr R \<and> em_iteration self X = Inr self'
     \<and> nrows R = nrows M \<and> ncols R = nrows X
     \<and> (\<forall>c<nrows M. \<forall>i<nrows X. ent R c i =
           fl_exp (log_joint M V s X c i - fl_log (\<Sum>c'<nrows M. fl_exp (log_joint M V s X c' i))))
     \<and> means self' = Some M' \<and> covars self' = Some V'
     \<and> nrows M' = nrows M \<and> ncols M' = ncols M \<and> nrows V' = nrows M \<and> ncols V' = ncols M
     \<and> (\<forall>c<nrows M. \<forall>j<ncols M.
           ent M' c j = (\<Sum>i<nrows X. ent R c i * ent X i j) / (\<Sum>i<nrows X. ent R c i)
         \<and> ent V' c j = (\<Sum>i<nrows X. ent R c i * fl_sq (ent X i j - ent M' c j))
                          / (\<Sum>i<nrows X. ent R c i))"
proof -
  obtain R where R: "e_step self X = Inr R" "nrows R = nrows M" "ncols R = nrows X"
    "\<forall>c<nrows M. \<forall>i<nrows X. ent R c i =
           fl_exp (log_joint M V s X c i - fl_log (\<Sum>c'<nrows M. fl_exp (log_joint M V s X c' i)))"
    using e_step_entries [OF assms] by blast
  from m_step_entries [OF assms(1,2,4,5,6) R(2,3)] R show ?thesis
    unfolding em_iteration_def by (simp del: ex_simps) blast
qed

lemma one_state_resp:
  "\<exists>R. e_step one_state_model (mat_of 1 [[1], [3]]) = Inr R
     \<and> ent R 0 0 = Fin 1 \<and> ent R 0 1 = Fin 1"
  using e_step_entries [of one_state_model "mat_of 1 [[0]]" "mat_of 1 [[1]]" "vec_of [1]"
      "mat_of 1 [[1], [3]]"]
  apply (simp add: one_state_model_def mat_of_def vec_of_def)
  apply (erule exE)
  apply (rule_tac x=R in exI)
  apply (simp add: log_joint_def gauss_ll_def fl_sq_def numeral_2_eq_2 All_less_Suc)
  done

lemma predict_cong:
  "means a = means b \<Longrightarrow> covars a = covars b \<Longrightarrow> predict a X = predict b X"
  by (simp add: predict_def compute_log_likelihood_def)

lemma two_state_predict_half: "predict two_state_model (mat_of 1 [[1/2]]) = Inr [0]"
  using predict_labels [of two_state_model "mat_of 1 [[0], [1]]" "mat_of 1 [[1], [1]]"
      "mat_of 1 [[1/2]]"] float32_lowest_below ln_two_pi_bounds
  by (simp add: two_state_model_def mat_of_def gauss_ll_def fl_sq_def numeral_2_eq_2
      power2_eq_square argmax_def)


lemma two_state_resp_half:
  "bind_err (e_step two_state_model (mat_of 1 [[1/2]])) argmax_axis0 = Inr [1]"
proof -
  let ?M = "mat_of 1 [[0], [1]]" and ?V = "mat_of 1 [[1], [1]]"
  let ?s = "vec_of [1/4, 3/4]" and ?X = "mat_of 1 [[1/2]]"
  have l: "ln (1/4) < ln (3/4 :: real)"
    by (subst ln_less_cancel_iff) simp_all
  have "means two_state_model = Some ?M" "covars two_state_model = Some ?V"
    "startprob two_state_model = Some ?s" "nrows ?V = nrows ?M" "ncols ?V = ncols ?M"
    "ncols ?X = ncols ?M" "vlen ?s = nrows ?M"
    by (simp_all add: two_state_model_def mat_of_def vec_of_def)
  from e_step_entries [OF this]
  obtain R where R: "e_step two_state_model ?X = Inr R" "nrows R = nrows ?M"
    "ncols R = nrows ?X"
    "\<forall>c<nrows ?M. \<forall>i<nrows ?X. ent R c i =
           fl_exp (log_joint ?M ?V ?s ?X c i
                   - fl_log (\<Sum>c'<nrows ?M. fl_exp (log_joint ?M ?V ?s ?X c' i)))"
    by blast
  have p: "0 < exp a + exp b" for a b :: real
    by (simp add: add_pos_pos)
  have r: "finite_fl (ent R 0 0)" "0 < real_of (ent R 0 0)"
    "fl_gt (ent R 1 0) (ent R 0 0)"
    using R(4) l
    by (simp_all add: log_joint_def gauss_ll_def fl_sq_def mat_of_def vec_of_def numeral_2_eq_2
        power2_eq_square p)
  then obtain x where x: "ent R 0 0 = Fin x" "0 < x"
    by (cases "ent R 0 0") simp_all
  then have "fl_gt (ent R 0 0) (Fin float32_lowest)"
    using float32_lowest_below by simp
  with r(3) show ?thesis
    using R(1,2,3) by (simp add: argmax_axis0_def argmax_def mat_of_def numeral_2_eq_2)
qed

subsection \<open>Special values in sums and in the responsibilities\<close>

lemma finite_flE:
  assumes "finite_fl x"
  obtains a where "x = Fin a"
  using assms by (cases x) simp_all

lemma sum_lower_class:
  assumes "finite S" "\<forall>j\<in>S. f j = NInf \<or> finite_fl (f j)"
  shows "(sum f S = NInf \<or> finite_fl (sum f S)) \<and> (sum f S = NInf \<longleftrightarrow> (\<exists>j\<in>S. f j = NInf))"
  using assms
proof (induction S rule: finite_induct)
  case empty
  then show ?case by (simp add: zero_fl_def)
next
  case (insert x F)
  from insert.IH insert.prems
  have ih: "sum f F = NInf \<or> finite_fl (sum f F)"
    "sum f F = NInf \<longleftrightarrow> (\<exists>j\<in>F. f j = NInf)" by blast+
  have x: "f x = NInf \<or> finite_fl (f x)" using insert.prems by simp
  show ?case
    using insert.hyps ih x by (cases "f x"; cases "sum f F") auto
qed

lemma sum_upper_class:
  assumes "finite S" "\<forall>j\<in>S. f j \<noteq> NInf"
  shows "sum f S \<noteq> NInf \<and> (finite_fl (sum f S) \<longleftrightarrow> (\<forall>j\<in>S. finite_fl (f j)))"
  using assms
proof (induction S rule: finite_induct)
  case empty
  then show ?case by (simp add: zero_fl_def)
next
  case (insert x F)
  from insert.IH insert.prems
  have ih: "sum f F \<noteq> NInf" "finite_fl (sum f F) \<longleftrightarrow> (\<forall>j\<in>F. finite_fl (f j))"
    by blast+
  have x: "f x \<noteq> NInf" using insert.prems by simp
  show ?case
    using insert.hyps ih x by (cases "f x"; cases "sum f F") auto
qed

lemma gauss_ll_zero_variance:
  assumes "\<forall>j<ncols M. finite_fl (ent X i j) \<and> finite_fl (ent M c j) \<and> finite_fl (ent V c j)
             \<and> 0 \<le> real_of (ent V c j)"
    and "j0 < ncols M" "real_of (ent V c j0) = 0"
  shows "gauss_ll M V X c i = NaN"
proof -
  let ?q = "\<lambda>j. fl_sq (ent X i j - ent M c j) / ent V c j"
  let ?l = "\<lambda>j. fl_log (Fin (2 * pi) * ent V c j)"
  have q: "?q j \<noteq> NInf" and l: "?l j = NInf \<or> finite_fl (?l j)" if "j < ncols M" for j
  proof -
    have f: "finite_fl (ent X i j)" "finite_fl (ent M c j)" "finite_fl (ent V c j)"
      "0 \<le> real_of (ent V c j)"
      using assms(1) that by simp_all
    obtain x m v where e: "ent X i j = Fin x" "ent M c j = Fin m" "ent V c j = Fin v"
      using f by (elim finite_flE) blast
    have "0 \<le> v" using f(4) e by simp
    show "?q j \<noteq> NInf"
      using e \<open>0 \<le> v\<close> by (simp add: fl_sq_def)
    show "?l j = NInf \<or> finite_fl (?l j)"
      using e \<open>0 \<le> v\<close> by (cases "v = 0") simp_all
  qed
  have f0: "finite_fl (ent X i j0)" "finite_fl (ent M c j0)" "finite_fl (ent V c j0)"
    using assms(1,2) by simp_all
  have v0: "ent V c j0 = Fin 0"
    using f0(3) assms(3) by (auto elim: finite_flE)
  obtain x m where xm: "ent X i j0 = Fin x" "ent M c j0 = Fin m"
    using f0 by (elim finite_flE) blast
  have q0: "\<not> finite_fl (?q j0)"
    using v0 xm by (simp add: fl_sq_def)
  have l0: "?l j0 = NInf"
    using v0 by simp
  have s1: "sum ?q {..<ncols M} \<noteq> NInf" "\<not> finite_fl (sum ?q {..<ncols M})"
    using sum_upper_class [of "{..<ncols M}" ?q] q q0 assms(2) by auto
  have s2: "sum ?l {..<ncols M} = NInf"
    using sum_lower_class [of "{..<ncols M}" ?l] l l0 assms(2) by auto
  show ?thesis
    unfolding gauss_ll_def s2 using s1
    by (cases "sum ?q {..<ncols M}") (simp_all add: minus_fl_def)
qed

lemma NaN_absorbs [simp]:
  "x + NaN = NaN" "NaN + x = NaN" "x * NaN = NaN" "NaN * x = NaN"
  "x - NaN = NaN" "NaN - x = NaN" "x / NaN = NaN" "NaN / x = NaN"
  by (cases x; simp add: minus_fl_def)+

lemma sum_NaN: "(\<Sum>i<(n::nat). NaN) = (if n = 0 then Fin 0 else NaN)"
  by (induction n) (simp_all add: zero_fl_def)

lemma sum_Fin_zero: "(\<Sum>i\<in>S. Fin 0) = Fin 0"
  using sum_Fin [of "\<lambda>_. 0" S] by simp







subsection \<open>Failures of \<open>predict\<close>\<close>

lemma shaped_fitted: "shaped self k d \<Longrightarrow> fitted self k d"
  by (auto simp: shaped_def fitted_def split: option.splits)

lemma predict_broadcast:
  assumes "means self = Some M" "covars self = Some V"
    and "nrows V = nrows M" "ncols V = ncols M" "0 < nrows M"
  shows "(ncols X \<noteq> ncols M \<and> ncols X \<noteq> 1 \<and> ncols M \<noteq> 1
            \<longrightarrow> predict self X = Inl IncompatibleShapes)
       \<and> (ncols X = ncols M \<or> ncols X = 1 \<or> ncols M = 1
            \<longrightarrow> (\<exists>ls. predict self X = Inr ls \<and> length ls = nrows X))"
  using assms
  by (auto simp: predict_def compute_log_likelihood_def param_def bop3_def bop2_def
      newaxis0_def newaxis1_def map_ten3_def map_mat_def reduce_sum3_axis2_def bdim_def
      argmax_axis0_def Let_def)

section \<open>The claims\<close>

text \<open>
  C3. For a state whose means and variances have the shape \<open>[k, d]\<close> and an observation set of
  \<open>n\<close> samples of \<open>d\<close> features, \<open>_compute_log_likelihood\<close> returns a \<open>k \<times> n\<close> matrix whose
  entry \<open>(c, i)\<close> is \<open>-0.5 * sum_j ((x_i - mean_c)^2 / var_c) - 0.5 * sum_j log(2 pi var_c)\<close>,
  operation for operation on the entries of the tensors.
\<close>

theorem compute_log_likelihood_gaussian:
  assumes "means self = Some M" "covars self = Some V"
    and "nrows V = nrows M" "ncols V = ncols M" "ncols X = ncols M"
  shows "\<exists>L. compute_log_likelihood self X = Inr L \<and> nrows L = nrows M \<and> ncols L = nrows X
     \<and> (\<forall>c<nrows M. \<forall>i<nrows X.
          ent L c i =
            Fin (- 0.5) * (\<Sum>j<ncols M. fl_sq (ent X i j - ent M c j) / ent V c j)
            - Fin 0.5 * (\<Sum>j<ncols M. fl_log (Fin (2 * pi) * ent V c j)))"
proof -
  obtain L where L: "compute_log_likelihood self X = Inr L" "nrows L = nrows M"
    "ncols L = nrows X" "\<forall>c<nrows M. \<forall>i<nrows X. ent L c i = gauss_ll M V X c i"
    using cll_entries [OF assms] by blast
  have "ent L c i =
            Fin (- 0.5) * (\<Sum>j<ncols M. fl_sq (ent X i j - ent M c j) / ent V c j)
            - Fin 0.5 * (\<Sum>j<ncols M. fl_log (Fin (2 * pi) * ent V c j))"
    if "c < nrows M" "i < nrows X" for c i
    using L(4) that by (simp add: gauss_ll_def)
  then show ?thesis
    using L(1,2,3) by blast
qed

theorem compute_log_likelihood_gaussian_witness:
  "\<exists>L. compute_log_likelihood two_state_model (mat_of 1 [[0], [2]]) = Inr L
     \<and> nrows L = 2 \<and> ncols L = 2
     \<and> ent L 1 1 = Fin (- 0.5) * (fl_sq (Fin 2 - Fin 1) / Fin 1)
                     - Fin 0.5 * fl_log (Fin (2 * pi) * Fin 1)"
  using compute_log_likelihood_gaussian [of two_state_model "mat_of 1 [[0], [1]]"
      "mat_of 1 [[1], [1]]" "mat_of 1 [[0], [2]]"]
  apply (simp add: two_state_model_def mat_of_def)
  apply (erule exE)
  apply (rule_tac x=L in exI)
  apply (simp add: fl_sq_def)
  done



text \<open>
  C2. In an iteration of the loop of \<open>fit\<close>, with \<open>resp\<close> the responsibilities of its E-step,
  the new mean of component \<open>c\<close> is \<open>(sum_i resp[c][i] * x_i) / denom_c\<close> with
  \<open>denom_c = sum_i resp[c][i]\<close>, and the new variance is
  \<open>(sum_i resp[c][i] * (x_i - mean_c)^2) / denom_c\<close> where \<open>mean_c\<close> is the mean just assigned
  in the same iteration.
\<close>

theorem m_step_uses_new_mean:
  assumes "means self = Some M" "covars self = Some V" "startprob self = Some s"
    and "nrows V = nrows M" "ncols V = ncols M" "ncols X = ncols M" "vlen s = nrows M"
  shows "\<exists>R self' M' V'. e_step self X = Inr R \<and> em_iteration self X = Inr self'
     \<and> means self' = Some M' \<and> covars self' = Some V'
     \<and> (\<forall>c<nrows M. \<forall>j<ncols M.
           ent M' c j = (\<Sum>i<nrows X. ent R c i * ent X i j) / (\<Sum>i<nrows X. ent R c i)
         \<and> ent V' c j = (\<Sum>i<nrows X. ent R c i * fl_sq (ent X i j - ent M' c j))
                          / (\<Sum>i<nrows X. ent R c i))"
  using em_iteration_entries [OF assms] by blast

theorem m_step_uses_new_mean_witness:
  "\<exists>self' M' V'. em_iteration one_state_model (mat_of 1 [[1], [3]]) = Inr self'
     \<and> means self' = Some M' \<and> covars self' = Some V'
     \<and> ent M' 0 0 = Fin 2 \<and> ent V' 0 0 = Fin 1"
  using m_step_uses_new_mean [of one_state_model "mat_of 1 [[0]]" "mat_of 1 [[1]]" "vec_of [1]"
      "mat_of 1 [[1], [3]]"] one_state_resp
  apply (simp add: one_state_model_def mat_of_def vec_of_def numeral_2_eq_2)
  apply (elim exE conjE)
  apply (simp add: fl_sq_def)
  done

text \<open>
  C10. \<open>predict\<close> depends on the means and the variances only: two states that agree on them
  give the same labels on every observation set, whatever their start weights and transition
  matrices. The labels are not the argmax of the responsibilities of the E-step: for the
  sample 1/2, at equal distance of the two means of \<open>two_state_model\<close>, \<open>predict\<close> answers 0
  while the responsibilities, which include the start weights 1/4 and 3/4, are largest at 1.
\<close>

theorem predict_ignores_start_weights:
  "(means a = means b \<and> covars a = covars b \<longrightarrow> predict a X = predict b X)
   \<and> predict two_state_model (mat_of 1 [[1/2]]) = Inr [0]
   \<and> bind_err (e_step two_state_model (mat_of 1 [[1/2]])) argmax_axis0 = Inr [1]"
  using predict_cong [of a b X] two_state_predict_half two_state_resp_half by blast

theorem predict_ignores_start_weights_witness:
  "predict two_state_model (mat_of 1 [[0], [1]])
     = predict (two_state_model\<lparr>n_components := 7, startprob := Some (vec_of [3/4, 1/4]),
                  transmat := Some (mat_of 2 [[1, 0], [0, 1]])\<rparr>) (mat_of 1 [[0], [1]])"
  using predict_ignores_start_weights [of two_state_model
      "two_state_model\<lparr>n_components := 7, startprob := Some (vec_of [3/4, 1/4]),
                  transmat := Some (mat_of 2 [[1, 0], [0, 1]])\<rparr>" "mat_of 1 [[0], [1]]"]
  by simp

text \<open>
  C5. In a run of \<open>fit\<close> the start weights and the transition matrix are the softmax of their
  random draws, assigned before the loop; after any number of iterations, and when \<open>fit\<close>
  returns, they have these values, whatever \<open>n_iter\<close> and the observations.
\<close>

theorem fit_never_reassigns_startprob_transmat:
  assumes "0 \<le> n_components self"
  shows "\<exists>self0 self'. initialize self g (ncols X) = Inr self0 \<and> fit self g X = Inr self'
     \<and> startprob self0 = Some (softmax_vec (random_uniform1 g (nat (n_components self))))
     \<and> transmat self0 = Some (softmax_axis1
          (random_uniform2 g (nat (n_components self)) (nat (n_components self))))
     \<and> (\<forall>t. \<exists>s. em_loop t self0 X = Inr s
            \<and> startprob s = startprob self0 \<and> transmat s = transmat self0)
     \<and> startprob self' = startprob self0 \<and> transmat self' = transmat self0"
proof -
  obtain self0 where i: "initialize self g (ncols X) = Inr self0"
    "startprob self0 = Some (softmax_vec (random_uniform1 g (nat (n_components self))))"
    "transmat self0 = Some (softmax_axis1
          (random_uniform2 g (nat (n_components self)) (nat (n_components self))))"
    using initialize_eq [OF assms, of g "ncols X"] by simp
  have l: "\<exists>s. em_loop t self0 X = Inr s
            \<and> startprob s = startprob self0 \<and> transmat s = transmat self0" for t
    using em_loop_ok [OF initialize_shaped [OF i(1)] refl, of t] by blast
  from l [of "nat (n_iter self)"] i(1)
  have "\<exists>self'. fit self g X = Inr self'
     \<and> startprob self' = startprob self0 \<and> transmat self' = transmat self0"
    by (simp add: fit_def)
  with i l show ?thesis by blast
qed

theorem fit_never_reassigns_startprob_transmat_witness:
  "\<exists>self'. fit (TFHMM_init 2 3) zero_rng (mat_of 1 [[0], [1]]) = Inr self'
     \<and> startprob self' = Some (softmax_vec (random_uniform1 zero_rng 2))
     \<and> transmat self' = Some (softmax_axis1 (random_uniform2 zero_rng 2 2))"
  using fit_never_reassigns_startprob_transmat [of "TFHMM_init 2 3" zero_rng
      "mat_of 1 [[0], [1]]"]
  by (auto simp: TFHMM_init_def)

text \<open>
  C7, as amended. \<open>_compute_log_likelihood\<close> divides by each variance as it is stored, with
  no clamping. When a variance of component \<open>c\<close> is 0 (the sample and the means being finite,
  the other variances finite and not negative), the quotient of that feature is a division
  by zero, not a number, and the entry \<open>(c, i)\<close> of the log-likelihood is \<open>NaN\<close>.
\<close>

theorem log_likelihood_variance_unclamped:
  assumes "means self = Some M" "covars self = Some V"
    and "nrows V = nrows M" "ncols V = ncols M" "ncols X = ncols M"
    and "c < nrows M" "i < nrows X"
    and "\<forall>j<ncols M. finite_fl (ent X i j) \<and> finite_fl (ent M c j) \<and> finite_fl (ent V c j)
             \<and> 0 \<le> real_of (ent V c j)"
    and "j0 < ncols M" "real_of (ent V c j0) = 0"
  shows "\<exists>L. compute_log_likelihood self X = Inr L
     \<and> \<not> finite_fl (fl_sq (ent X i j0 - ent M c j0) / ent V c j0)
     \<and> ent L c i = NaN"
proof -
  obtain L where L: "compute_log_likelihood self X = Inr L"
    "\<forall>c<nrows M. \<forall>i<nrows X. ent L c i = gauss_ll M V X c i"
    using cll_entries [OF assms(1-5)] by blast
  have e: "ent L c i = NaN"
    using L(2) assms(6,7) gauss_ll_zero_variance [OF assms(8,9,10)] by simp
  have f: "finite_fl (ent X i j0)" "finite_fl (ent M c j0)" "finite_fl (ent V c j0)"
    using assms(8,9) by simp_all
  then obtain x m v where xmv: "ent X i j0 = Fin x" "ent M c j0 = Fin m" "ent V c j0 = Fin v"
    by (elim finite_flE) blast
  with assms(10) have "\<not> finite_fl (fl_sq (ent X i j0 - ent M c j0) / ent V c j0)"
    by (simp add: fl_sq_def)
  with L(1) e show ?thesis by blast
qed

theorem log_likelihood_variance_unclamped_witness:
  "\<exists>L. compute_log_likelihood (wide_model\<lparr>covars := Some (mat_of 2 [[1, 0]])\<rparr>)
          (mat_of 2 [[3, 4]]) = Inr L
     \<and> ent L 0 0 = NaN"
  using log_likelihood_variance_unclamped [of "wide_model\<lparr>covars := Some (mat_of 2 [[1, 0]])\<rparr>"
      "mat_of 2 [[0, 0]]" "mat_of 2 [[1, 0]]" "mat_of 2 [[3, 4]]" 0 0 1]
  by (auto simp: wide_model_def mat_of_def numeral_2_eq_2 All_less_Suc)

text \<open>
  C7 as stated fails: with the variance 0, the mean 0 and the sample 1 the quotient is
  \<open>1 / 0\<close> and the log-likelihood is \<open>NaN\<close>; with a variance clamped to a positive epsilon no
  division by zero would occur.
\<close>

theorem variance_clamp_counterexample:
  "entry_of (compute_log_likelihood zero_variance_model (mat_of 1 [[1]])) 0 0 = Inr NaN"
  by (simp add: entry_of_def compute_log_likelihood_def zero_variance_model_def mat_of_def
      param_def bop3_def bop2_def newaxis0_def newaxis1_def map_ten3_def map_mat_def
      reduce_sum3_axis2_def fl_sq_def minus_fl_def)

text \<open>
  C8, as amended. The M-step divides by \<open>denom_c\<close> with no guard. When the responsibilities
  of component \<open>c\<close> are numbers that are not negative and add up to 0, on finite samples, the
  M-step raises nothing and assigns \<open>NaN\<close> to every mean and every variance of the component.
\<close>

theorem m_step_zero_responsibility_unguarded:
  assumes "means self = Some M" "covars self = Some V"
    and "nrows V = nrows M" "ncols V = ncols M" "ncols X = ncols M"
    and "nrows R = nrows M" "ncols R = nrows X"
    and "c < nrows M"
    and "\<forall>i<nrows X. finite_fl (ent R c i) \<and> 0 \<le> real_of (ent R c i)"
    and "(\<Sum>i<nrows X. ent R c i) = Fin 0"
    and "\<forall>i<nrows X. \<forall>j<ncols M. finite_fl (ent X i j)"
  shows "\<exists>self' M' V'. m_step self X R = Inr self'
     \<and> means self' = Some M' \<and> covars self' = Some V'
     \<and> (\<forall>j<ncols M. ent M' c j = NaN \<and> ent V' c j = NaN)"
proof -
  have r: "(\<Sum>i<nrows X. ent R c i) = (\<Sum>i<nrows X. Fin (real_of (ent R c i)))"
    using assms(9) by (intro sum.cong) (simp_all add: finite_fl_iff [symmetric])
  then have "(\<Sum>i<nrows X. real_of (ent R c i)) = 0"
    using assms(10) by (simp add: sum_Fin)
  moreover have "\<forall>i\<in>{..<nrows X}. 0 \<le> real_of (ent R c i)"
    using assms(9) by simp
  ultimately have "\<forall>i\<in>{..<nrows X}. real_of (ent R c i) = 0"
    using sum_nonneg_eq_0_iff [of "{..<nrows X}" "\<lambda>i. real_of (ent R c i)"] by blast
  then have "\<forall>i<nrows X. real_of (ent R c i) = 0"
    by simp
  then have z: "ent R c i = Fin 0" if "i < nrows X" for i
    using assms(9) that finite_fl_iff [of "ent R c i"] by simp
  obtain self' M' V' where m: "m_step self X R = Inr self'"
    "means self' = Some M'" "covars self' = Some V'"
    "\<forall>c<nrows M. \<forall>j<ncols M.
           ent M' c j = (\<Sum>i<nrows X. ent R c i * ent X i j) / (\<Sum>i<nrows X. ent R c i)
         \<and> ent V' c j = (\<Sum>i<nrows X. ent R c i * fl_sq (ent X i j - ent M' c j))
                          / (\<Sum>i<nrows X. ent R c i)"
    using m_step_entries [OF assms(1-7)] by blast
  have "ent M' c j = NaN \<and> ent V' c j = NaN" if j: "j < ncols M" for j
  proof -
    have "(\<Sum>i<nrows X. ent R c i * ent X i j) = (\<Sum>i<nrows X. Fin 0)"
    proof (rule sum.cong)
      fix i assume "i \<in> {..<nrows X}"
      then have i: "i < nrows X" by simp
      then have "finite_fl (ent X i j)"
        using assms(11) j by simp
      then obtain x where "ent X i j = Fin x"
        by (rule finite_flE)
      with z [OF i] show "ent R c i * ent X i j = Fin 0" by simp
    qed simp
    then have mean: "ent M' c j = NaN"
      using m(4) assms(8,10) j by (simp add: sum_Fin_zero)
    have "(\<Sum>i<nrows X. ent R c i * fl_sq (ent X i j - ent M' c j)) = (\<Sum>i<nrows X. NaN)"
      by (rule sum.cong) (simp_all add: mean z fl_sq_def minus_fl_def)
    then have "ent V' c j = NaN"
      using m(4) assms(8,10) j by (simp add: sum_NaN)
    with mean show ?thesis by simp
  qed
  with m(1,2,3) show ?thesis by blast
qed

theorem m_step_zero_responsibility_unguarded_witness:
  "\<exists>self' M' V'. m_step two_state_model (mat_of 1 [[1], [2]]) (mat_of 2 [[0, 0], [1, 1]])
       = Inr self'
     \<and> means self' = Some M' \<and> covars self' = Some V'
     \<and> ent M' 0 0 = NaN \<and> ent V' 0 0 = NaN"
  using m_step_zero_responsibility_unguarded [of two_state_model "mat_of 1 [[0], [1]]"
      "mat_of 1 [[1], [1]]" "mat_of 1 [[1], [2]]" "mat_of 2 [[0, 0], [1, 1]]" 0]
  by (auto simp: two_state_model_def mat_of_def numeral_2_eq_2 All_less_Suc)

text \<open>
  C8 as stated fails: with the responsibilities \<open>[[0, 0], [1, 1]]\<close> of the samples 1 and 2,
  component 0 has \<open>denom = 0\<close> and its mean and its variance become \<open>NaN\<close> (the mean is
  \<open>0 / 0\<close>), while component 1 gets the mean 3/2.
\<close>

theorem m_step_guard_counterexample:
  "mean_of (m_step two_state_model (mat_of 1 [[1], [2]]) (mat_of 2 [[0, 0], [1, 1]])) 0 0
     = Inr NaN
   \<and> var_of (m_step two_state_model (mat_of 1 [[1], [2]]) (mat_of 2 [[0, 0], [1, 1]])) 0 0
     = Inr NaN
   \<and> mean_of (m_step two_state_model (mat_of 1 [[1], [2]]) (mat_of 2 [[0, 0], [1, 1]])) 1 0
     = Inr (Fin (3 / 2))"
  by (simp add: mean_of_def var_of_def m_step_def two_state_model_def mat_of_def param_def matmul_def
      bop2_def bop3_def assign_mat_def col_of_def reduce_sum_axis1_def numeral_2_eq_2
      newaxis0_def newaxis1_def newaxis2_def map_ten3_def reduce_sum3_axis1_def Let_def
      fl_sq_def)




text \<open>
  C6, as amended. \<open>fit\<close> fails exactly when \<open>n_components\<close> is negative; with
  \<open>n_components = 0\<close> or with observations of 0 features it returns a fitted state, and it
  takes the feature count from the observations, so that no mismatch can arise in it.
  \<open>predict\<close> on a fitted state with at least one component fails exactly when the feature
  count of the observations differs from that of the state and neither is 1; otherwise it
  returns one label for each sample, an axis of size 1 being broadcast.
\<close>

theorem fit_predict_failures:
  "(n_components self < 0 \<longrightarrow> fit self g X = Inl NegativeDimension)
   \<and> (0 \<le> n_components self \<longrightarrow>
        (\<exists>self'. fit self g X = Inr self' \<and> fitted self' (nat (n_components self)) (ncols X)))
   \<and> (fitted self k d \<and> 0 < k \<longrightarrow>
        (ncols X \<noteq> d \<and> ncols X \<noteq> 1 \<and> d \<noteq> 1 \<longrightarrow> predict self X = Inl IncompatibleShapes)
      \<and> (ncols X = d \<or> ncols X = 1 \<or> d = 1 \<longrightarrow>
           (\<exists>ls. predict self X = Inr ls \<and> length ls = nrows X)))"
proof (intro conjI impI)
  assume "n_components self < 0"
  then show "fit self g X = Inl NegativeDimension"
    by (simp add: fit_def initialize_neg)
next
  assume "0 \<le> n_components self"
  from fit_ok [OF this, of g X]
  show "\<exists>self'. fit self g X = Inr self' \<and> fitted self' (nat (n_components self)) (ncols X)"
    by (blast intro: shaped_fitted)
next
  assume a: "fitted self k d \<and> 0 < k"
  then obtain M V where h: "means self = Some M" "covars self = Some V"
    "nrows M = k" "ncols M = d" "nrows V = k" "ncols V = d"
    by (auto simp: fitted_iff)
  note p = predict_broadcast [of self M V X]
  show "predict self X = Inl IncompatibleShapes" if "ncols X \<noteq> d \<and> ncols X \<noteq> 1 \<and> d \<noteq> 1"
    using p h a that by auto
  show "\<exists>ls. predict self X = Inr ls \<and> length ls = nrows X"
    if "ncols X = d \<or> ncols X = 1 \<or> d = 1"
    using p h a that by auto
qed

theorem fit_predict_failures_witness:
  "fit (TFHMM_init (- 1) 1) zero_rng (mat_of 1 [[0]]) = Inl NegativeDimension
   \<and> (\<exists>self'. fit (TFHMM_init 0 1) zero_rng (mat_of 1 [[0]]) = Inr self' \<and> fitted self' 0 1)
   \<and> predict wide_model (mat_of 3 [[1, 2, 3]]) = Inl IncompatibleShapes
   \<and> (\<exists>ls. predict two_state_model (mat_of 2 [[0, 5]]) = Inr ls \<and> length ls = 1)"
  using fit_predict_failures [of "TFHMM_init (- 1) 1" zero_rng "mat_of 1 [[0]]"]
    fit_predict_failures [of "TFHMM_init 0 1" zero_rng "mat_of 1 [[0]]"]
    fit_predict_failures [where self = wide_model and k = 1 and d = 2
      and X = "mat_of 3 [[1, 2, 3]]"]
    fit_predict_failures [where self = two_state_model and k = 2 and d = 1
      and X = "mat_of 2 [[0, 5]]"]
  by (simp add: TFHMM_init_def wide_model_def two_state_model_def mat_of_def fitted_def)

text \<open>
  C6 as stated fails: \<open>fit\<close> succeeds with \<open>n_components = 0\<close> and with observations of 0
  features, and \<open>predict\<close> of a state with one feature returns a label for a sample of two
  features.
\<close>

theorem invalid_dimension_counterexample:
  "\<not> isl (fit (TFHMM_init 0 1) zero_rng (mat_of 1 [[0]]))
   \<and> \<not> isl (fit (TFHMM_init 1 1) zero_rng (mat_of 0 [[]]))
   \<and> predict two_state_model (mat_of 2 [[0, 5]]) = Inr [1]"
proof -
  have a: "\<not> isl (fit (TFHMM_init 0 1) zero_rng (mat_of 1 [[0]]))"
    using fit_ok [of "TFHMM_init 0 1" zero_rng "mat_of 1 [[0]]"]
    by (auto simp: TFHMM_init_def)
  have b: "\<not> isl (fit (TFHMM_init 1 1) zero_rng (mat_of 0 [[]]))"
    using fit_ok [of "TFHMM_init 1 1" zero_rng "mat_of 0 [[]]"]
    by (auto simp: TFHMM_init_def)
  have c: "predict two_state_model (mat_of 2 [[0, 5]]) = Inr [1]"
    using float32_lowest_below ln_two_pi_bounds
    by (simp add: argmax_def predict_def compute_log_likelihood_def two_state_model_def mat_of_def
        param_def bop3_def bop2_def newaxis0_def newaxis1_def map_ten3_def map_mat_def
        reduce_sum3_axis2_def bdim_def bidx_def argmax_axis0_def fl_sq_def numeral_2_eq_2)
  from a b c show ?thesis by blast
qed

end
